theory Spec2Isabelle
  imports Main
begin

section \<open>Values shared by the pages\<close>

text \<open>
  A call of the backend client resolves to an object \<open>{data, error}\<close>: \<open>Inl\<close> carries the
  message of the error, \<open>Inr\<close> the data. Numbers are whole numbers (kilograms, rupees,
  paise), where the arithmetic of the source agrees with integer arithmetic.
\<close>

type_synonym 'a response = "string + 'a"

text \<open>
  The signed-in user is the object the authentication context hands out. The pages read
  its properties \<open>uid\<close>, \<open>id\<close>, \<open>email\<close> and \<open>phoneNumber\<close>; a property the object
  does not carry reads as undefined (\<open>None\<close>).
\<close>

record auth_user =
  u_uid :: string
  u_id :: "string option"
  u_email :: "string option"
  u_phoneNumber :: "string option"

datatype order_status = Pending | Paid | Delivered | Cancelled

text \<open>\<open>String.prototype.trim\<close>: white space is removed at both ends.\<close>

definition js_space :: "char \<Rightarrow> bool" where
  "js_space c = (c \<in> set [CHR 0x09, CHR 0x0A, CHR 0x0B, CHR 0x0C, CHR 0x0D, CHR 0x20, CHR 0xA0])"

definition trim :: "string \<Rightarrow> string" where
  "trim s = rev (dropWhile js_space (rev (dropWhile js_space s)))"

section \<open>The crop page: CropDetail\<close>

text \<open>
  A row of the table \<open>crops\<close>. The page's interface \<open>Crop\<close> declares the first eight
  columns; \<open>available\<close> is the column the stock update writes.
\<close>

record crop =
  c_id :: string
  c_name :: string
  c_description :: string
  price_per_kg :: int
  quantity_kg :: int
  image_url :: "string option"
  location :: "string option"
  c_farmer_id :: string
  available :: bool

text \<open>The component's state, with \<open>user\<close> from the authentication context.\<close>

record crop_detail =
  user :: "auth_user option"
  crop :: "crop option"
  quantity :: int
  address :: string

text \<open>The body sent to the edge function \<open>create-razorpay-order\<close>.\<close>

record invoke_body =
  b_amount :: int
  b_cropId :: "string option"
  b_quantity :: int

text \<open>What the edge function answers with: the order of the payment provider.\<close>

record razorpay_order =
  rzp_id :: string
  rzp_amount :: int

text \<open>The options of the checkout widget; the field \<open>handler\<close> is the function \<open>handler\<close> below.\<close>

record checkout_options =
  opt_amount :: int
  opt_currency :: string
  opt_name :: string
  opt_description :: string
  opt_order_id :: string
  opt_contact :: "string option"
  opt_color :: string

text \<open>What the widget passes to its success handler.\<close>

record checkout_response =
  razorpay_order_id :: string
  razorpay_payment_id :: string

text \<open>The object inserted into the table \<open>orders\<close>.\<close>

record order_insert =
  o_buyer_id :: "string option"
  o_farmer_id :: "string option"
  o_crop_id :: "string option"
  o_quantity_kg :: int
  o_total_price :: int
  o_status :: order_status
  o_delivery_address :: string
  o_razorpay_order_id :: string
  o_razorpay_payment_id :: string

text \<open>The object of the stock update.\<close>

record crop_patch =
  p_quantity_kg :: int
  p_available :: bool

text \<open>
  What the page does, in the order it does it: notifications, navigation, the
  \<open>paying\<close> flag, and the calls that leave the browser.
\<close>

datatype effect =
    Toast string "string option" bool
  | Navigate string
  | ConsoleError string
  | SetLoading bool
  | SetPaying bool
  | FunctionsInvoke string invoke_body
  | OpenCheckout checkout_options
  | InsertOrder order_insert
  | UpdateCrop "string option" crop_patch

text \<open>The two tables the payment writes to, as the backend holds them.\<close>

record store =
  orders :: "order_insert list"
  crops :: "crop list"

text \<open>\<open>crop ? crop.price_per_kg * quantity : 0\<close>\<close>

definition totalPrice :: "crop_detail \<Rightarrow> int" where
  "totalPrice p = (case crop p of None \<Rightarrow> 0 | Some c \<Rightarrow> price_per_kg c * quantity p)"

text \<open>\<open>crop?.quantity_kg || 0\<close>: a missing crop and a stock of zero both read as zero.\<close>

definition stock :: "crop_detail \<Rightarrow> int" where
  "stock p = (case crop p of None \<Rightarrow> 0 | Some c \<Rightarrow> (if quantity_kg c = 0 then 0 else quantity_kg c))"


definition purchase_description :: "crop_detail \<Rightarrow> string" where
  "purchase_description p =
     ''Purchase: '' @ (case crop p of None \<Rightarrow> ''undefined'' | Some c \<Rightarrow> c_name c)"

definition checkout_of :: "crop_detail \<Rightarrow> auth_user \<Rightarrow> razorpay_order \<Rightarrow> checkout_options" where
  "checkout_of p u od =
     \<lparr>opt_amount = rzp_amount od, opt_currency = ''INR'', opt_name = ''Farm2Market'',
      opt_description = purchase_description p, opt_order_id = rzp_id od,
      opt_contact = u_email u, opt_color = ''#16a34a''\<rparr>"

text \<open>
  \<open>handlePayment\<close>. \<open>loaded\<close> says whether the script of the widget has defined
  \<open>window.Razorpay\<close> (calling \<open>new\<close> on undefined throws inside the \<open>try\<close>); \<open>resp\<close> is
  the answer of \<open>supabase.functions.invoke\<close>. The \<open>finally\<close> block runs as soon as the
  widget has been opened.
\<close>

definition handlePayment :: "crop_detail \<Rightarrow> bool \<Rightarrow> razorpay_order response \<Rightarrow> effect list" where
  "handlePayment p loaded resp =
     (case user p of
        None \<Rightarrow> [Toast ''loginRequired'' None True, Navigate ''/auth'']
      | Some u \<Rightarrow>
          if trim (address p) = [] then [Toast ''addressRequired'' None True]
          else if quantity p > stock p then [Toast ''insufficientStock'' None True]
          else
            [SetPaying True,
             FunctionsInvoke ''create-razorpay-order''
               \<lparr>b_amount = totalPrice p, b_cropId = map_option c_id (crop p),
                b_quantity = quantity p\<rparr>]
            @ (case resp of
                 Inl msg \<Rightarrow> [Toast ''error'' (Some msg) True]
               | Inr od \<Rightarrow>
                   if loaded then [OpenCheckout (checkout_of p u od)]
                   else [Toast ''error'' (Some ''window.Razorpay is not a constructor'') True])
            @ [SetPaying False])"

text \<open>The backend's side of the two writes; a call that fails leaves the table as it was.\<close>

definition insert_order :: "string option \<Rightarrow> order_insert \<Rightarrow> store \<Rightarrow> store" where
  "insert_order fault row db =
     (case fault of None \<Rightarrow> db\<lparr>orders := orders db @ [row]\<rparr> | Some _ \<Rightarrow> db)"

definition patch_crop :: "string option \<Rightarrow> crop_patch \<Rightarrow> crop \<Rightarrow> crop" where
  "patch_crop cid pt c =
     (if cid = Some (c_id c) then c\<lparr>quantity_kg := p_quantity_kg pt, available := p_available pt\<rparr>
      else c)"

definition update_crop :: "string option \<Rightarrow> string option \<Rightarrow> crop_patch \<Rightarrow> store \<Rightarrow> store" where
  "update_crop fault cid pt db =
     (case fault of None \<Rightarrow> db\<lparr>crops := map (patch_crop cid pt) (crops db)\<rparr> | Some _ \<Rightarrow> db)"

definition order_of :: "crop_detail \<Rightarrow> auth_user \<Rightarrow> checkout_response \<Rightarrow> order_insert" where
  "order_of p u r =
     \<lparr>o_buyer_id = u_id u, o_farmer_id = map_option c_farmer_id (crop p),
      o_crop_id = map_option c_id (crop p), o_quantity_kg = quantity p,
      o_total_price = totalPrice p, o_status = Paid, o_delivery_address = address p,
      o_razorpay_order_id = razorpay_order_id r,
      o_razorpay_payment_id = razorpay_payment_id r\<rparr>"

definition patch_of :: "crop_detail \<Rightarrow> crop_patch" where
  "patch_of p = \<lparr>p_quantity_kg = stock p - quantity p, p_available = (stock p - quantity p > 0)\<rparr>"

text \<open>
  The success handler of the widget. \<open>f_ins\<close> and \<open>f_upd\<close> are the errors, if any, of the
  insert and of the update. The result is the store, what the page did, and the error the
  handler threw (\<open>throw dbError\<close>; nothing around the handler catches it). The answer of
  the update is not looked at.
\<close>

definition handler ::
  "crop_detail \<Rightarrow> auth_user \<Rightarrow> checkout_response \<Rightarrow> string option \<Rightarrow> string option \<Rightarrow> store
     \<Rightarrow> store \<times> effect list \<times> string option" where
  "handler p u r f_ins f_upd db =
     (let db1 = insert_order f_ins (order_of p u r) db in
      case f_ins of
        Some msg \<Rightarrow> (db1, [InsertOrder (order_of p u r)], Some msg)
      | None \<Rightarrow>
          (update_crop f_upd (map_option c_id (crop p)) (patch_of p) db1,
           [InsertOrder (order_of p u r),
            UpdateCrop (map_option c_id (crop p)) (patch_of p),
            Toast ''paymentSuccess'' (Some ''orderPlaced'') False,
            Navigate ''/orders''],
           None))"

fun is_OpenCheckout :: "effect \<Rightarrow> bool" where
  "is_OpenCheckout (OpenCheckout _) = True"
| "is_OpenCheckout _ = False"

text \<open>
  The whole flow: the widget calls the handler only when it was opened and the payment
  went through (\<open>pay = Some r\<close>); a dismissed widget calls nothing.
\<close>

definition checkout_flow ::
  "crop_detail \<Rightarrow> bool \<Rightarrow> razorpay_order response \<Rightarrow> checkout_response option
     \<Rightarrow> string option \<Rightarrow> string option \<Rightarrow> store \<Rightarrow> store \<times> effect list \<times> string option" where
  "checkout_flow p loaded resp pay f_ins f_upd db =
     (let es = handlePayment p loaded resp in
      case (user p, pay) of
        (Some u, Some r) \<Rightarrow>
          if list_ex is_OpenCheckout es
          then (case handler p u r f_ins f_upd db of (db', hs, thrown) \<Rightarrow> (db', es @ hs, thrown))
          else (db, es, None)
      | _ \<Rightarrow> (db, es, None))"

text \<open>The calls that leave the browser.\<close>

fun remote :: "effect \<Rightarrow> bool" where
  "remote (FunctionsInvoke _ _) = True"
| "remote (OpenCheckout _) = True"
| "remote (InsertOrder _) = True"
| "remote (UpdateCrop _ _) = True"
| "remote _ = False"


section \<open>The chat page: Chat\<close>

text \<open>
  The interfaces \<open>ChatRoom\<close> and \<open>Message\<close>. The time stamps are strings in the page and
  time stamps in the database, which orders by them; here they are points in time.
\<close>

record chat_room =
  r_id :: string
  r_farmer_id :: string
  r_buyer_id :: string
  r_crop_id :: "string option"
  updated_at :: nat

record message =
  m_id :: string
  m_chat_id :: string
  m_sender_id :: string
  m_content :: string
  created_at :: nat
  m_read :: bool

record chat_page =
  chats :: "chat_room list"
  activeChat :: "string option"
  messages :: "message list"
  newMessage :: string
  loading :: bool

text \<open>
  The backend's side of a call: with a fault the call resolves to that error, otherwise to
  the data.
\<close>

definition answer :: "string option \<Rightarrow> 'a \<Rightarrow> 'a response" where
  "answer fault d = (case fault of None \<Rightarrow> Inr d | Some msg \<Rightarrow> Inl msg)"

text \<open>\<open>.order(column, { ascending })\<close>\<close>

definition order_rows :: "('r \<Rightarrow> nat) \<Rightarrow> bool \<Rightarrow> 'r list \<Rightarrow> 'r list" where
  "order_rows col ascending rows = (if ascending then sort_key col rows else rev (sort_key col rows))"

text \<open>\<open>.single()\<close>: the data is the row when the query has exactly one row, and null otherwise.\<close>

definition single :: "'r list \<Rightarrow> 'r option" where
  "single rows = (case rows of [r] \<Rightarrow> Some r | _ \<Rightarrow> None)"


text \<open>
  The query \<open>fetchMessages\<close> sends: the chat of the messages and the direction of the
  order by \<open>created_at\<close>; and the backend's answer to it from the table \<open>messages\<close>.
\<close>

record message_query =
  q_chat_id :: string
  q_ascending :: bool

definition select_messages :: "string option \<Rightarrow> message list \<Rightarrow> message_query \<Rightarrow> message list response" where
  "select_messages fault tbl q =
     answer fault (order_rows created_at (q_ascending q) (filter (\<lambda>m. m_chat_id m = q_chat_id q) tbl))"

definition fetchMessages ::
  "(message_query \<Rightarrow> message list response) \<Rightarrow> string \<Rightarrow> chat_page \<Rightarrow> chat_page \<times> effect list" where
  "fetchMessages backend chatId st =
     (case backend \<lparr>q_chat_id = chatId, q_ascending = True\<rparr> of
        Inl msg \<Rightarrow> (st, [ConsoleError ''Fetch messages error:''])
      | Inr rows \<Rightarrow> (st\<lparr>messages := rows\<rparr>, []))"

text \<open>The three \<open>.eq\<close> filters of the lookup in \<open>findOrCreateChat\<close>.\<close>

definition same_triple :: "string \<Rightarrow> string \<Rightarrow> string \<Rightarrow> chat_room \<Rightarrow> bool" where
  "same_triple buyer farmer cropId r =
     (r_buyer_id r = buyer \<and> r_farmer_id r = farmer \<and> r_crop_id r = Some cropId)"

text \<open>
  \<open>findOrCreateChat\<close>, on the table \<open>chats\<close>. \<open>f_sel\<close> and \<open>f_ins\<close> are the errors, if
  any, of the lookup and of the insert; \<open>new_id\<close> and \<open>now\<close> are the id and the time stamp
  the database gives a new row. The error of the lookup is not looked at: only its data is.
\<close>

definition findOrCreateChat ::
  "auth_user option \<Rightarrow> string \<Rightarrow> string \<Rightarrow> string option \<Rightarrow> string option \<Rightarrow> string \<Rightarrow> nat
     \<Rightarrow> chat_room list \<times> chat_page \<Rightarrow> chat_room list \<times> chat_page \<times> effect list" where
  "findOrCreateChat usr farmerId cropId f_sel f_ins new_id now s =
     (case s of (tbl, st) \<Rightarrow>
      (case usr of
        None \<Rightarrow> (tbl, st, [])
      | Some u \<Rightarrow>
          (case (case f_sel of None \<Rightarrow> single (filter (same_triple (u_uid u) farmerId cropId) tbl)
                 | Some _ \<Rightarrow> None) of
             Some existingChat \<Rightarrow> (tbl, st\<lparr>activeChat := Some (r_id existingChat)\<rparr>, [])
           | None \<Rightarrow>
               (case f_ins of
                  Some msg \<Rightarrow>
                    (tbl, st, [ConsoleError ''Create chat error:'', Toast ''error'' (Some msg) True])
                | None \<Rightarrow>
                    (let newChat = \<lparr>r_id = new_id, r_farmer_id = farmerId, r_buyer_id = u_uid u,
                                    r_crop_id = Some cropId, updated_at = now\<rparr>
                     in (tbl @ [newChat],
                         st\<lparr>chats := newChat # chats st, activeChat := Some (r_id newChat)\<rparr>,
                         []))))))"

text \<open>
  One invocation after the other with the same user, farmer and crop; each element of the
  list is the id and the time stamp the database would give a row inserted by that
  invocation. Every call is answered.
\<close>

fun findOrCreateChat_each ::
  "auth_user \<Rightarrow> string \<Rightarrow> string \<Rightarrow> (string \<times> nat) list
     \<Rightarrow> chat_room list \<times> chat_page \<Rightarrow> chat_room list \<times> chat_page" where
  "findOrCreateChat_each u farmerId cropId [] s = s"
| "findOrCreateChat_each u farmerId cropId ((new_id, now) # rest) s =
     (case findOrCreateChat (Some u) farmerId cropId None None new_id now s of
        (tbl', st', _) \<Rightarrow> findOrCreateChat_each u farmerId cropId rest (tbl', st'))"


section \<open>The orders page: Orders\<close>

record order =
  ord_id :: string
  ord_crop_id :: string
  ord_quantity_kg :: int
  ord_total_price :: int
  ord_status :: order_status
  ord_created_at :: nat
  ord_delivery_address :: "string option"
  ord_razorpay_payment_id :: "string option"



text \<open>The string each value of the type of \<open>status\<close> is.\<close>

fun status_name :: "order_status \<Rightarrow> string" where
  "status_name Pending = ''pending''"
| "status_name Paid = ''paid''"
| "status_name Delivered = ''delivered''"
| "status_name Cancelled = ''cancelled''"

record status_entry =
  icon :: string
  color :: string
  label :: string

text \<open>The object \<open>statusConfig\<close>, property by property.\<close>

definition statusConfig :: "(string \<times> status_entry) list" where
  "statusConfig =
     [(''pending'', \<lparr>icon = ''Clock'', color = ''bg-yellow-500'', label = ''pending''\<rparr>),
      (''paid'', \<lparr>icon = ''CheckCircle'', color = ''bg-green-500'', label = ''paid''\<rparr>),
      (''delivered'', \<lparr>icon = ''Truck'', color = ''bg-blue-500'', label = ''delivered''\<rparr>),
      (''cancelled'', \<lparr>icon = ''XCircle'', color = ''bg-red-500'', label = ''cancelled''\<rparr>)]"

text \<open>
  What the page computes for the badge of an order: \<open>statusConfig[order.status]\<close>, then
  its icon, the class of the badge and the label. Reading \<open>icon\<close> of a missing entry
  throws a TypeError.
\<close>

definition status_badge :: "string \<Rightarrow> string + (string \<times> string \<times> string)" where
  "status_badge key =
     (case map_of statusConfig key of
        None \<Rightarrow> Inl ''TypeError''
      | Some e \<Rightarrow> Inr (icon e, color e @ '' text-white'', label e))"

definition order_badge :: "order \<Rightarrow> string + (string \<times> string \<times> string)" where
  "order_badge ord = status_badge (status_name (ord_status ord))"

section \<open>The authentication context: AuthProvider\<close>








section \<open>The edge function create-razorpay-order\<close>

text \<open>What a \<open>try\<close> block can throw: an \<open>Error\<close> with its message, or another value.\<close>

datatype thrown = Error string | NotAnError

















section \<open>Reading a trace\<close>


text \<open>The four steps of a purchase that leave the browser, and the step an effect is.\<close>

datatype step = CreateRemoteOrder | OpenWidget | WriteOrder | DecrementStock

fun step_of :: "effect \<Rightarrow> step option" where
  "step_of (FunctionsInvoke name _) =
     (if name = ''create-razorpay-order'' then Some CreateRemoteOrder else None)"
| "step_of (OpenCheckout _) = Some OpenWidget"
| "step_of (InsertOrder _) = Some WriteOrder"
| "step_of (UpdateCrop _ _) = Some DecrementStock"
| "step_of _ = None"

definition steps :: "effect list \<Rightarrow> step list" where
  "steps es = List.map_filter step_of es"

section \<open>Sample inputs\<close>

definition sample_buyer :: auth_user where
  "sample_buyer = \<lparr>u_uid = ''buyer-1'', u_id = Some ''buyer-1'', u_email = Some ''asha@example.org'',
                    u_phoneNumber = Some ''+910000000001''\<rparr>"

definition sample_crop :: crop where
  "sample_crop = \<lparr>c_id = ''crop-1'', c_name = ''Tomato'', c_description = ''Fresh'',
                   price_per_kg = 40, quantity_kg = 10, image_url = None, location = None,
                   c_farmer_id = ''farmer-1'', available = True\<rparr>"

definition sample_page :: crop_detail where
  "sample_page = \<lparr>user = Some sample_buyer, crop = Some sample_crop, quantity = 3,
                   address = ''12 Mill Road''\<rparr>"

definition sample_store :: store where
  "sample_store = \<lparr>orders = [], crops = [sample_crop]\<rparr>"

definition sample_order :: razorpay_order where
  "sample_order = \<lparr>rzp_id = ''order_A1'', rzp_amount = 12000\<rparr>"

definition sample_payment :: checkout_response where
  "sample_payment = \<lparr>razorpay_order_id = ''order_A1'', razorpay_payment_id = ''pay_B2''\<rparr>"

definition sample_chat_page :: chat_page where
  "sample_chat_page = \<lparr>chats = [], activeChat = Some ''chat-1'', messages = [],
                        newMessage = ''hello'', loading = True\<rparr>"

definition sample_chat :: chat_room where
  "sample_chat = \<lparr>r_id = ''chat-1'', r_farmer_id = ''farmer-1'', r_buyer_id = ''buyer-1'',
                   r_crop_id = Some ''crop-1'', updated_at = 5\<rparr>"

definition sample_messages :: "message list" where
  "sample_messages =
     [\<lparr>m_id = ''m2'', m_chat_id = ''chat-1'', m_sender_id = ''farmer-1'', m_content = ''yes'',
       created_at = 20, m_read = False\<rparr>,
      \<lparr>m_id = ''m9'', m_chat_id = ''chat-2'', m_sender_id = ''buyer-7'', m_content = ''hi'',
       created_at = 15, m_read = True\<rparr>,
      \<lparr>m_id = ''m1'', m_chat_id = ''chat-1'', m_sender_id = ''buyer-1'', m_content = ''in stock?'',
       created_at = 10, m_read = True\<rparr>]"









section \<open>The steps of a trace\<close>

lemma steps_simps [simp]:
  "steps [] = []"
  "steps (e # es) = (case step_of e of None \<Rightarrow> steps es | Some s \<Rightarrow> s # steps es)"
  by (simp_all add: steps_def split: option.splits)

lemma steps_append [simp]: "steps (xs @ ys) = steps xs @ steps ys"
  by (simp add: steps_def List.map_filter_def)




section \<open>The payment flow\<close>



text \<open>
  C2. When the insert of the order fails after a successful payment, the handler throws
  the error and does nothing else: the store is as it was and no second attempt or undo
  is made. When the insert is accepted and the stock update fails, the handler goes on
  to the success notification and the orders page: the order, with status paid, stays in
  the store, the crops are as they were, and each call was made once.
\<close>

theorem no_compensation:
  "handler p u r (Some e) f_upd db = (db, [InsertOrder (order_of p u r)], Some e)
   \<and> handler p u r None (Some e) db =
       (db\<lparr>orders := orders db @ [order_of p u r]\<rparr>,
        [InsertOrder (order_of p u r),
         UpdateCrop (map_option c_id (crop p)) (patch_of p),
         Toast ''paymentSuccess'' (Some ''orderPlaced'') False,
         Navigate ''/orders''],
        None)
   \<and> o_status (order_of p u r) = Paid
   \<and> crops (fst (handler p u r None (Some e) db)) = crops db"
  by (simp add: handler_def Let_def insert_order_def update_crop_def order_of_def)

theorem no_compensation_witness:
  "crops (fst (handler sample_page sample_buyer sample_payment None (Some ''timeout'') sample_store))
     = [sample_crop]
   \<and> map o_status (orders (fst (handler sample_page sample_buyer sample_payment None
                                   (Some ''timeout'') sample_store))) = [Paid]
   \<and> handler sample_page sample_buyer sample_payment (Some ''timeout'') None sample_store
       = (sample_store, [InsertOrder (order_of sample_page sample_buyer sample_payment)],
          Some ''timeout'')"
  using no_compensation [of sample_page sample_buyer sample_payment "''timeout''" None sample_store]
    no_compensation [of sample_page sample_buyer sample_payment "''timeout''" "Some ''timeout''"
      sample_store]
  by (simp add: sample_store_def)

text \<open>
  C6. For a crop with stock s on the page and a purchase of q kilograms, the update the
  success handler sends after the accepted insert sets \<open>quantity_kg\<close> to s - q and
  \<open>available\<close> to whether s - q is positive; when the backend applies it, every row of
  that crop has these two values. (This needs no bound on q.)
\<close>

theorem stock_decrement:
  assumes "crop p = Some c" "quantity_kg c = s" "quantity p = q"
  shows "UpdateCrop (Some (c_id c)) \<lparr>p_quantity_kg = s - q, p_available = (0 < s - q)\<rparr>
           \<in> set (fst (snd (handler p u r None f_upd db)))
         \<and> (\<forall>row \<in> set (crops (fst (handler p u r None None db))).
               c_id row = c_id c \<longrightarrow> quantity_kg row = s - q \<and> available row = (0 < s - q))"
  using assms
  by (auto simp: handler_def Let_def insert_order_def update_crop_def patch_of_def stock_def patch_crop_def)

theorem stock_decrement_witness:
  "crop sample_page = Some sample_crop \<and> quantity_kg sample_crop = 10 \<and> quantity sample_page = 3
   \<and> UpdateCrop (Some ''crop-1'') \<lparr>p_quantity_kg = 7, p_available = True\<rparr>
       \<in> set (fst (snd (handler sample_page sample_buyer sample_payment None None sample_store)))
   \<and> map quantity_kg (crops (fst (handler sample_page sample_buyer sample_payment None None
                                    sample_store))) = [7]"
  using stock_decrement [of sample_page sample_crop 10 3 sample_buyer sample_payment None
      sample_store]
  by (simp add: sample_page_def sample_crop_def sample_store_def handler_def Let_def
        insert_order_def update_crop_def patch_crop_def patch_of_def stock_def)

text \<open>
  C9. When there is no signed-in user, or the delivery address is blank after trimming, or
  the quantity exceeds the stock, \<open>handlePayment\<close> shows one notification (and, without a
  user, goes to the sign-in page) and returns: the remote function is not invoked, the
  widget is not opened, and no order or stock update is written.
\<close>

theorem handlePayment_guards:
  assumes "user p = None \<or> trim (address p) = [] \<or> quantity p > stock p"
  shows "handlePayment p loaded resp =
           (if user p = None then [Toast ''loginRequired'' None True, Navigate ''/auth'']
            else if trim (address p) = [] then [Toast ''addressRequired'' None True]
            else [Toast ''insufficientStock'' None True])
         \<and> \<not> list_ex remote (handlePayment p loaded resp)
         \<and> checkout_flow p loaded resp pay f_ins f_upd db = (db, handlePayment p loaded resp, None)"
  using assms
  by (auto simp: handlePayment_def checkout_flow_def Let_def split: option.splits)

theorem handlePayment_guards_witness:
  "trim (address (sample_page\<lparr>address := ''   ''\<rparr>)) = []
   \<and> handlePayment (sample_page\<lparr>address := ''   ''\<rparr>) True (Inr sample_order)
       = [Toast ''addressRequired'' None True]
   \<and> checkout_flow (sample_page\<lparr>address := ''   ''\<rparr>) True (Inr sample_order)
        (Some sample_payment) None None sample_store
       = (sample_store, [Toast ''addressRequired'' None True], None)"
  using handlePayment_guards [of "sample_page\<lparr>address := ''   ''\<rparr>" True "Inr sample_order"
      "Some sample_payment" None None sample_store]
  by (simp add: sample_page_def trim_def js_space_def)


section \<open>Errors of remote calls\<close>




section \<open>The chat page\<close>

lemma single_short: "length xs \<le> 1 \<Longrightarrow> single xs = (case xs of [] \<Rightarrow> None | x # _ \<Rightarrow> Some x)"
  by (cases xs; cases "tl xs") (auto simp: single_def split: list.splits)

lemma findOrCreateChat_found:
  "filter (same_triple (u_uid u) f c) tbl = [r]
   \<Longrightarrow> findOrCreateChat (Some u) f c None None new_id now (tbl, st)
       = (tbl, st\<lparr>activeChat := Some (r_id r)\<rparr>, [])"
  by (simp add: findOrCreateChat_def single_def)

lemma findOrCreateChat_created:
  "filter (same_triple (u_uid u) f c) tbl = []
   \<Longrightarrow> findOrCreateChat (Some u) f c None None new_id now (tbl, st)
       = (tbl @ [\<lparr>r_id = new_id, r_farmer_id = f, r_buyer_id = u_uid u, r_crop_id = Some c,
                  updated_at = now\<rparr>],
          st\<lparr>chats := \<lparr>r_id = new_id, r_farmer_id = f, r_buyer_id = u_uid u, r_crop_id = Some c,
                  updated_at = now\<rparr> # chats st, activeChat := Some new_id\<rparr>, [])"
  by (simp add: findOrCreateChat_def single_def Let_def)

lemma findOrCreateChat_unanswered:
  "findOrCreateChat (Some u) f c (Some e) None new_id now (tbl, st)
     = (tbl @ [\<lparr>r_id = new_id, r_farmer_id = f, r_buyer_id = u_uid u, r_crop_id = Some c,
                updated_at = now\<rparr>],
        st\<lparr>chats := \<lparr>r_id = new_id, r_farmer_id = f, r_buyer_id = u_uid u, r_crop_id = Some c,
                      updated_at = now\<rparr> # chats st, activeChat := Some new_id\<rparr>, [])"
  by (simp add: findOrCreateChat_def Let_def)

lemma findOrCreateChat_each_found:
  "filter (same_triple (u_uid u) f c) tbl = [r]
   \<Longrightarrow> findOrCreateChat_each u f c es (tbl, st)
       = (tbl, if es = [] then st else st\<lparr>activeChat := Some (r_id r)\<rparr>)"
proof (induction es arbitrary: st)
  case Nil
  then show ?case by simp
next
  case (Cons e es)
  obtain new_id now where e: "e = (new_id, now)" by (cases e)
  show ?case
    using Cons.prems Cons.IH [OF Cons.prems, of "st\<lparr>activeChat := Some (r_id r)\<rparr>"]
    by (simp add: e findOrCreateChat_found)
qed

text \<open>
  C4, as the code has it. A conversation is keyed by buyer, farmer and crop as long as the
  lookup is answered. On a table with at most one chat of the triple, and with every call
  answered, any number of invocations of \<open>findOrCreateChat\<close>, one after the other, with
  that buyer, farmer and crop does one of two things: when a chat of the triple exists,
  the table stays as it is and that chat is the active one; when none exists, the first
  invocation inserts one chat with that \<open>buyer_id\<close>, \<open>farmer_id\<close> and \<open>crop_id\<close> and
  makes it the active one, and the later invocations insert nothing. Afterwards the table
  has exactly one chat of the triple. A lookup that comes back with an error is read as
  no chat: the insert follows, whatever the table holds.
\<close>

theorem chat_keyed_by_triple:
  assumes "length (filter (same_triple (u_uid u) f c) tbl) \<le> 1"
  shows "((\<exists>r. filter (same_triple (u_uid u) f c) tbl = [r]
             \<and> findOrCreateChat_each u f c ((new_id, now) # rest) (tbl, st)
                 = (tbl, st\<lparr>activeChat := Some (r_id r)\<rparr>))
          \<or> (filter (same_triple (u_uid u) f c) tbl = []
             \<and> findOrCreateChat_each u f c ((new_id, now) # rest) (tbl, st)
                 = (tbl @ [\<lparr>r_id = new_id, r_farmer_id = f, r_buyer_id = u_uid u,
                            r_crop_id = Some c, updated_at = now\<rparr>],
                    st\<lparr>chats := \<lparr>r_id = new_id, r_farmer_id = f, r_buyer_id = u_uid u,
                                  r_crop_id = Some c, updated_at = now\<rparr> # chats st,
                       activeChat := Some new_id\<rparr>)))
         \<and> length (filter (same_triple (u_uid u) f c)
                     (fst (findOrCreateChat_each u f c ((new_id, now) # rest) (tbl, st)))) = 1
         \<and> findOrCreateChat (Some u) f c (Some e) None new_id now (tbl, st)
             = (tbl @ [\<lparr>r_id = new_id, r_farmer_id = f, r_buyer_id = u_uid u,
                        r_crop_id = Some c, updated_at = now\<rparr>],
                st\<lparr>chats := \<lparr>r_id = new_id, r_farmer_id = f, r_buyer_id = u_uid u,
                              r_crop_id = Some c, updated_at = now\<rparr> # chats st,
                   activeChat := Some new_id\<rparr>,
                [])"
proof (cases "filter (same_triple (u_uid u) f c) tbl")
  case Nil
  let ?new = "\<lparr>r_id = new_id, r_farmer_id = f, r_buyer_id = u_uid u, r_crop_id = Some c,
                updated_at = now\<rparr>"
  have one: "filter (same_triple (u_uid u) f c) (tbl @ [?new]) = [?new]"
    using Nil by (simp add: same_triple_def)
  show ?thesis
    using Nil one
    by (simp add: findOrCreateChat_created findOrCreateChat_each_found [OF one]
          findOrCreateChat_unanswered)
next
  case (Cons r rs)
  with assms have one: "filter (same_triple (u_uid u) f c) tbl = [r]" by simp
  show ?thesis
    using one
    by (simp add: findOrCreateChat_found findOrCreateChat_each_found [OF one]
          findOrCreateChat_unanswered)
qed

theorem chat_keyed_by_triple_witness:
  "length (filter (same_triple (u_uid sample_buyer) ''farmer-1'' ''crop-1'') []) \<le> 1
   \<and> length (filter (same_triple (u_uid sample_buyer) ''farmer-1'' ''crop-1'') [sample_chat]) \<le> 1
   \<and> fst (findOrCreateChat_each sample_buyer ''farmer-1'' ''crop-1''
             [(''chat-7'', 30), (''chat-8'', 31), (''chat-9'', 32)] ([], sample_chat_page))
       = [\<lparr>r_id = ''chat-7'', r_farmer_id = ''farmer-1'', r_buyer_id = ''buyer-1'',
           r_crop_id = Some ''crop-1'', updated_at = 30\<rparr>]
   \<and> findOrCreateChat_each sample_buyer ''farmer-1'' ''crop-1''
        [(''chat-7'', 30), (''chat-8'', 31)] ([sample_chat], sample_chat_page)
       = ([sample_chat], sample_chat_page\<lparr>activeChat := Some ''chat-1''\<rparr>)"
  using chat_keyed_by_triple [where u = sample_buyer and f = "''farmer-1''" and c = "''crop-1''"
      and tbl = "[]" and new_id = "''chat-7''" and now = 30
      and rest = "[(''chat-8'', 31), (''chat-9'', 32)]" and st = sample_chat_page]
    chat_keyed_by_triple [where u = sample_buyer and f = "''farmer-1''" and c = "''crop-1''"
      and tbl = "[sample_chat]" and new_id = "''chat-7''" and now = 30
      and rest = "[(''chat-8'', 31)]" and st = sample_chat_page]
  by (simp add: sample_buyer_def sample_chat_def same_triple_def)

text \<open>
  C4, as the specification has it, fails: with a chat of the triple in the table, an
  invocation whose lookup comes back with an error inserts a second chat of the triple.
\<close>

theorem second_chat_after_failed_lookup:
  "fst (findOrCreateChat (Some sample_buyer) ''farmer-1'' ''crop-1'' (Some ''Failed to fetch'') None
          ''chat-7'' 30 ([sample_chat], sample_chat_page))
     = [sample_chat,
        \<lparr>r_id = ''chat-7'', r_farmer_id = ''farmer-1'', r_buyer_id = ''buyer-1'',
         r_crop_id = Some ''crop-1'', updated_at = 30\<rparr>]
   \<and> length (filter (same_triple ''buyer-1'' ''farmer-1'' ''crop-1'')
               (fst (findOrCreateChat (Some sample_buyer) ''farmer-1'' ''crop-1''
                       (Some ''Failed to fetch'') None ''chat-7'' 30
                       ([sample_chat], sample_chat_page)))) = 2"
  by (simp add: findOrCreateChat_def Let_def sample_buyer_def sample_chat_def same_triple_def)

text \<open>
  C5. The messages of a conversation are ordered: when the query is answered,
  \<open>fetchMessages\<close> sets the messages of the page to the messages of the given chat, all
  of them and no others, in ascending order of \<open>created_at\<close>. A message carries its
  sender, content, time stamp and read flag (the record \<open>message\<close>).
\<close>

theorem messages_ascending:
  "case fetchMessages (select_messages None tbl) chatId st of
     (st', es) \<Rightarrow>
       sorted (map created_at (messages st'))
       \<and> set (messages st') = {m \<in> set tbl. m_chat_id m = chatId}
       \<and> length (messages st') = length (filter (\<lambda>m. m_chat_id m = chatId) tbl)
       \<and> es = []"
  by (auto simp: fetchMessages_def select_messages_def answer_def order_rows_def)

theorem messages_ascending_witness:
  "map m_id (messages (fst (fetchMessages (select_messages None sample_messages) ''chat-1''
                              sample_chat_page))) = [''m1'', ''m2'']
   \<and> sorted (map created_at (messages (fst (fetchMessages (select_messages None sample_messages)
                                               ''chat-1'' sample_chat_page))))"
  using messages_ascending [of sample_messages "''chat-1''" sample_chat_page]
  by (simp add: fetchMessages_def select_messages_def answer_def order_rows_def
        sample_messages_def)


section \<open>The authentication context\<close>



section \<open>The orders page\<close>

text \<open>
  C8. The status of an order is one of pending, paid, delivered and cancelled, and
  \<open>statusConfig\<close> has an entry, with icon, color and label, for exactly these four: the
  lookup for the badge of an order always finds its entry.
\<close>

theorem statusConfig_total:
  "(\<forall>s. s \<in> {Pending, Paid, Delivered, Cancelled})
   \<and> map fst statusConfig = map status_name [Pending, Paid, Delivered, Cancelled]
   \<and> (\<forall>s. map_of statusConfig (status_name s)
             = Some \<lparr>icon = (case s of Pending \<Rightarrow> ''Clock'' | Paid \<Rightarrow> ''CheckCircle''
                                | Delivered \<Rightarrow> ''Truck'' | Cancelled \<Rightarrow> ''XCircle''),
                     color = (case s of Pending \<Rightarrow> ''bg-yellow-500'' | Paid \<Rightarrow> ''bg-green-500''
                                | Delivered \<Rightarrow> ''bg-blue-500'' | Cancelled \<Rightarrow> ''bg-red-500''),
                     label = status_name s\<rparr>)
   \<and> (\<forall>ord. \<exists>badge. order_badge ord = Inr badge)"
proof -
  have a: "\<forall>s. s \<in> {Pending, Paid, Delivered, Cancelled}"
    using order_status.exhaust by auto
  have b: "map fst statusConfig = map status_name [Pending, Paid, Delivered, Cancelled]"
    by (simp add: statusConfig_def)
  have c: "map_of statusConfig (status_name s)
             = Some \<lparr>icon = (case s of Pending \<Rightarrow> ''Clock'' | Paid \<Rightarrow> ''CheckCircle''
                                | Delivered \<Rightarrow> ''Truck'' | Cancelled \<Rightarrow> ''XCircle''),
                     color = (case s of Pending \<Rightarrow> ''bg-yellow-500'' | Paid \<Rightarrow> ''bg-green-500''
                                | Delivered \<Rightarrow> ''bg-blue-500'' | Cancelled \<Rightarrow> ''bg-red-500''),
                     label = status_name s\<rparr>" for s
    by (cases s) (simp_all add: statusConfig_def)
  have d: "\<exists>badge. order_badge ord = Inr badge" for ord
    by (simp add: order_badge_def status_badge_def c)
  from a b c d show ?thesis by blast
qed

theorem statusConfig_total_witness:
  "order_badge \<lparr>ord_id = ''o1'', ord_crop_id = ''crop-1'', ord_quantity_kg = 3,
                ord_total_price = 120, ord_status = Delivered, ord_created_at = 40,
                ord_delivery_address = Some ''12 Mill Road'',
                ord_razorpay_payment_id = Some ''pay_B2''\<rparr>
     = Inr (''Truck'', ''bg-blue-500 text-white'', ''delivered'')"
  using statusConfig_total
  by (simp add: order_badge_def status_badge_def statusConfig_def)

section \<open>The edge function\<close>








end
